theory Spec2Isabelle
  imports Main
begin

section \<open>The address registry of ip\_manager.py\<close>

text \<open>
  The model follows \<^verbatim>\<open>src/preAssignment/ip_manager.py\<close>: the class \<^verbatim>\<open>Address\<close>
  (parsing, padding, containment) and the class \<^verbatim>\<open>IPManager\<close> (a dictionary of
  addresses backed by a CSV file). Python strings are \<^typ>\<open>string\<close>, Python's unbounded
  integers are \<^typ>\<open>int\<close> and \<^typ>\<open>nat\<close>, and every exception the source can raise is
  a value of the type \<open>error\<close>.
\<close>

subsection \<open>Errors\<close>

datatype error =
    InvalidAddressFormat    \<comment> \<open>\<^verbatim>\<open>socket.inet_aton\<close> raised (line 22)\<close>
  | InvalidPrefixFormat     \<comment> \<open>\<^verbatim>\<open>int(prefix)\<close> raised (line 23)\<close>
  | NegativeShiftCount      \<comment> \<open>\<^verbatim>\<open>>>\<close> with a negative count raised (lines 33, 34)\<close>
  | StorageLoadError        \<comment> \<open>\<^verbatim>\<open>address, note = row\<close> raised (line 62)\<close>
  | CsvError                \<comment> \<open>\<^verbatim>\<open>csv.reader\<close> raised \<^verbatim>\<open>csv.Error\<close> (line 61)\<close>

subsection \<open>String operations of Python used by the source\<close>

text \<open>\<^verbatim>\<open>s.split(d)\<close> for a one-character separator: never an empty list.\<close>

fun split_on :: "char \<Rightarrow> string \<Rightarrow> string list" where
  "split_on d [] = [[]]"
| "split_on d (c # cs) =
     (if c = d then [] # split_on d cs
      else (case split_on d cs of
              [] \<Rightarrow> [[c]]
            | t # ts \<Rightarrow> (c # t) # ts))"

text \<open>\<^verbatim>\<open>s.split(d, 1)\<close> when \<open>d\<close> occurs in \<open>s\<close>: the text before the first \<open>d\<close> and
  the text after it.\<close>

definition split_once :: "char \<Rightarrow> string \<Rightarrow> string \<times> string" where
  "split_once d s = (takeWhile (\<lambda>c. c \<noteq> d) s, drop 1 (dropWhile (\<lambda>c. c \<noteq> d) s))"

text \<open>\<^verbatim>\<open>sep.join(tokens)\<close>.\<close>

fun join :: "string \<Rightarrow> string list \<Rightarrow> string" where
  "join sep [] = []"
| "join sep [t] = t"
| "join sep (t # u # ts) = t @ sep @ join sep (u # ts)"

text \<open>\<^verbatim>\<open>sub in s\<close> on strings: \<open>sub\<close> occurs in \<open>s\<close> as a contiguous run.\<close>

fun starts_with :: "string \<Rightarrow> string \<Rightarrow> bool" where
  "starts_with [] s = True"
| "starts_with (c # cs) [] = False"
| "starts_with (c # cs) (d # ds) = (c = d \<and> starts_with cs ds)"

fun str_in :: "string \<Rightarrow> string \<Rightarrow> bool" where
  "str_in sub [] = (sub = [])"
| "str_in sub (c # cs) = (starts_with sub (c # cs) \<or> str_in sub cs)"

subsection \<open>Library functions: \<^verbatim>\<open>int\<close>, \<^verbatim>\<open>socket.inet_aton\<close>, \<^verbatim>\<open>struct.unpack\<close>\<close>

text \<open>The value of a digit character, for bases up to sixteen.\<close>

definition digit_value :: "char \<Rightarrow> nat option" where
  "digit_value =
     map_of
       [(CHR ''0'', 0), (CHR ''1'', 1), (CHR ''2'', 2), (CHR ''3'', 3), (CHR ''4'', 4),
        (CHR ''5'', 5), (CHR ''6'', 6), (CHR ''7'', 7), (CHR ''8'', 8), (CHR ''9'', 9),
        (CHR ''a'', 10), (CHR ''b'', 11), (CHR ''c'', 12), (CHR ''d'', 13), (CHR ''e'', 14),
        (CHR ''f'', 15), (CHR ''A'', 10), (CHR ''B'', 11), (CHR ''C'', 12), (CHR ''D'', 13),
        (CHR ''E'', 14), (CHR ''F'', 15)]"

text \<open>All of \<open>s\<close> read as digits of base \<open>b\<close>, most significant first.\<close>

fun number_in :: "nat \<Rightarrow> nat \<Rightarrow> string \<Rightarrow> nat option" where
  "number_in b acc [] = Some acc"
| "number_in b acc (c # cs) =
     (case digit_value c of
        None \<Rightarrow> None
      | Some d \<Rightarrow> if d < b then number_in b (acc * b + d) cs else None)"

text \<open>
  \<^verbatim>\<open>int(s)\<close> on an ASCII string: whitespace around the literal is dropped, one sign may
  precede the digits, and single underscores may stand between digits. \<open>None\<close> is
  the \<^verbatim>\<open>ValueError\<close>.
\<close>

definition is_space :: "char \<Rightarrow> bool" where
  "is_space c = (c \<in> set [CHR '' '', CHR 0x09, CHR 0x0A, CHR 0x0B, CHR 0x0C, CHR 0x0D])"

definition strip :: "string \<Rightarrow> string" where
  "strip s = rev (dropWhile is_space (rev (dropWhile is_space s)))"

fun drop_underscores :: "string \<Rightarrow> string option" where
  "drop_underscores [] = None"
| "drop_underscores [c] = (if c = CHR ''_'' then None else Some [c])"
| "drop_underscores (c # d # cs) =
     (if c = CHR ''_'' then None
      else if d = CHR ''_'' then map_option ((#) c) (drop_underscores cs)
      else map_option ((#) c) (drop_underscores (d # cs)))"

definition py_nat :: "string \<Rightarrow> nat option" where
  "py_nat s = (case drop_underscores s of None \<Rightarrow> None | Some ds \<Rightarrow> number_in 10 0 ds)"

definition py_int :: "string \<Rightarrow> int option" where
  "py_int s =
     (case strip s of
        [] \<Rightarrow> None
      | c # cs \<Rightarrow>
          if c = CHR ''-'' then map_option (\<lambda>n. - int n) (py_nat cs)
          else if c = CHR ''+'' then map_option int (py_nat cs)
          else map_option int (py_nat (c # cs)))"

text \<open>
  One part of an address in the numbers-and-dots notation of \<^verbatim>\<open>inet_aton\<close>, as its
  manual page describes it: decimal, octal with a leading \<open>0\<close>, or hexadecimal with a
  leading \<open>0x\<close> or \<open>0X\<close>. The whole part must be read.
\<close>

definition c_number :: "string \<Rightarrow> nat option" where
  "c_number t =
     (if t = [] then None
      else if take 2 t = ''0x'' \<or> take 2 t = ''0X'' then
        (if drop 2 t = [] then None else number_in 16 0 (drop 2 t))
      else if take 1 t = ''0'' then number_in 8 0 t
      else number_in 10 0 t)"

text \<open>
  \<^verbatim>\<open>socket.inet_aton(s)\<close>: the four bytes of the address, or \<open>None\<close> when it raises.
  The forms are \<open>a.b.c.d\<close> (each part a byte), \<open>a.b.c\<close> (\<open>c\<close> is 16 bits), \<open>a.b\<close>
  (\<open>b\<close> is 24 bits) and \<open>a\<close> (32 bits).
\<close>

definition inet_aton :: "string \<Rightarrow> nat list option" where
  "inet_aton s =
     (case those (map c_number (split_on CHR ''.'' s)) of
        Some [a, b, c, d] \<Rightarrow>
          if a \<le> 255 \<and> b \<le> 255 \<and> c \<le> 255 \<and> d \<le> 255 then Some [a, b, c, d] else None
      | Some [a, b, c] \<Rightarrow>
          if a \<le> 255 \<and> b \<le> 255 \<and> c \<le> 65535 then Some [a, b, c div 256, c mod 256] else None
      | Some [a, b] \<Rightarrow>
          if a \<le> 255 \<and> b \<le> 16777215
          then Some [a, b div 65536, b div 256 mod 256, b mod 256] else None
      | Some [a] \<Rightarrow>
          if a \<le> 4294967295
          then Some [a div 16777216, a div 65536 mod 256, a div 256 mod 256, a mod 256]
          else None
      | _ \<Rightarrow> None)"

text \<open>\<^verbatim>\<open>struct.unpack('>I', bs)[0]\<close>: the bytes as one big-endian unsigned integer.\<close>

definition unpack_be :: "nat list \<Rightarrow> nat" where
  "unpack_be bs = foldl (\<lambda>acc b. acc * 256 + b) 0 bs"

subsection \<open>The class \<^verbatim>\<open>Address\<close>\<close>

record Address =
  addr :: string
  note_text :: string
  value_num :: nat
  prefix :: int
  cidr :: string

text \<open>\<^verbatim>\<open>Address._normalize_addr\<close> (lines 37-41).\<close>

definition normalize_addr :: "string \<Rightarrow> string" where
  "normalize_addr a =
     (let tokens = split_on CHR ''.'' a
      in join ''.'' (tokens @ replicate (4 - length tokens) ''0''))"

text \<open>
  \<^verbatim>\<open>Address.__init__\<close> (lines 12-23). The field \<open>cidr\<close> is set on line 20, before the
  value is padded on line 21.
\<close>

definition value_and_prefix :: "string \<Rightarrow> string \<times> string" where
  "value_and_prefix a =
     (if CHR ''/'' \<in> set a then split_once CHR ''/'' a else (a, ''32''))"

definition Address_init :: "string \<Rightarrow> string \<Rightarrow> error + Address" where
  "Address_init a n =
     (case value_and_prefix a of
        (v, p) \<Rightarrow>
          (case inet_aton (normalize_addr v) of
             None \<Rightarrow> Inl InvalidAddressFormat
           | Some bs \<Rightarrow>
               (case py_int p of
                  None \<Rightarrow> Inl InvalidPrefixFormat
                | Some k \<Rightarrow>
                    Inr \<lparr>addr = a, note_text = n, value_num = unpack_be bs, prefix = k,
                         cidr = v @ ''/'' @ p\<rparr>)))"

text \<open>
  Python's \<^verbatim>\<open>v >> k\<close> on a non-negative \<open>v\<close>: a negative count raises
  \<^verbatim>\<open>ValueError\<close>, any other count divides by \<open>2 ^ k\<close>.
\<close>

definition rshift :: "nat \<Rightarrow> int \<Rightarrow> error + nat" where
  "rshift v k = (if k < 0 then Inl NegativeShiftCount else Inr (v div 2 ^ nat k))"

text \<open>\<^verbatim>\<open>Address.__contains__\<close> (lines 29-35); \<open>other\<close> is an \<^verbatim>\<open>Address\<close> by its type.\<close>

definition contains :: "Address \<Rightarrow> Address \<Rightarrow> error + bool" where
  "contains self other =
     (case rshift (value_num self) (32 - prefix self) of
        Inl e \<Rightarrow> Inl e
      | Inr self_net \<Rightarrow>
          (case rshift (value_num other) (32 - prefix self) of
             Inl e \<Rightarrow> Inl e
           | Inr other_net \<Rightarrow> Inr (self_net = other_net \<and> prefix self \<le> prefix other)))"

subsection \<open>Library functions: \<^verbatim>\<open>csv.writer\<close>, text files, \<^verbatim>\<open>csv.reader\<close>\<close>

text \<open>
  \<^verbatim>\<open>csv.writer(fp, quotechar='"', quoting=csv.QUOTE_ALL).writerow(row)\<close>: every field
  between double quotes, a double quote inside a field doubled, fields joined by commas,
  the line ended by carriage return and line feed.
\<close>

definition quote_field :: "string \<Rightarrow> string" where
  "quote_field f =
     CHR 0x22 # concat (map (\<lambda>c. if c = CHR 0x22 then [CHR 0x22, CHR 0x22] else [c]) f)
       @ [CHR 0x22]"

definition writerow :: "string list \<Rightarrow> string" where
  "writerow row = join '','' (map quote_field row) @ [CHR 0x0D, CHR 0x0A]"

text \<open>
  Reading a file opened with \<^verbatim>\<open>open(fn, 'rt')\<close> (no \<^verbatim>\<open>newline\<close> argument): universal
  newlines, so that \<open>CR LF\<close> and a lone \<open>CR\<close> both arrive as \<open>LF\<close>. Writing through
  \<^verbatim>\<open>open(fn, 'at')\<close> on a POSIX system stores the characters as they are.
\<close>

fun universal_newlines :: "string \<Rightarrow> string" where
  "universal_newlines [] = []"
| "universal_newlines [c] = (if c = CHR 0x0D then [CHR 0x0A] else [c])"
| "universal_newlines (c # d # cs) =
     (if c = CHR 0x0D \<and> d = CHR 0x0A then CHR 0x0A # universal_newlines cs
      else if c = CHR 0x0D then CHR 0x0A # universal_newlines (d # cs)
      else c # universal_newlines (d # cs))"

text \<open>Iterating over a text file: the lines, each with its line feed.\<close>

fun file_lines :: "string \<Rightarrow> string list" where
  "file_lines [] = []"
| "file_lines (c # cs) =
     (if c = CHR 0x0A then [c] # file_lines cs
      else (case file_lines cs of
              [] \<Rightarrow> [[c]]
            | l # ls \<Rightarrow> (c # l) # ls))"

text \<open>
  \<^verbatim>\<open>csv.reader\<close> with the default dialect (delimiter comma, quote character double
  quote, doubled quotes, not strict, no escape character): the state machine of the C
  module. The states for an escape character cannot be reached and are left out.
\<close>

datatype parser_state =
  START_RECORD | START_FIELD | IN_FIELD | IN_QUOTED_FIELD | QUOTE_IN_QUOTED_FIELD | EAT_CRNL

datatype event = Chr char | EOL

record reader =
  pstate :: parser_state
  fields_done :: "string list"
  field_buf :: string

definition field_limit :: nat where
  "field_limit = 131072"

definition parse_reset :: reader where
  "parse_reset = \<lparr>pstate = START_RECORD, fields_done = [], field_buf = []\<rparr>"

definition parse_save_field :: "reader \<Rightarrow> reader" where
  "parse_save_field rd = rd\<lparr>fields_done := fields_done rd @ [field_buf rd], field_buf := []\<rparr>"

definition parse_add_char :: "reader \<Rightarrow> char \<Rightarrow> error + reader" where
  "parse_add_char rd c =
     (if field_limit \<le> length (field_buf rd) then Inl CsvError
      else Inr (rd\<lparr>field_buf := field_buf rd @ [c]\<rparr>))"

definition is_nl :: "char \<Rightarrow> bool" where
  "is_nl c = (c = CHR 0x0A \<or> c = CHR 0x0D)"

definition end_of_record :: "reader \<Rightarrow> event \<Rightarrow> reader" where
  "end_of_record rd ev =
     (parse_save_field rd)\<lparr>pstate := (if ev = EOL then START_RECORD else EAT_CRNL)\<rparr>"

definition start_field :: "reader \<Rightarrow> event \<Rightarrow> error + reader" where
  "start_field rd ev =
     (case ev of
        EOL \<Rightarrow> Inr (end_of_record rd ev)
      | Chr c \<Rightarrow>
          if is_nl c then Inr (end_of_record rd ev)
          else if c = CHR 0x22 then Inr (rd\<lparr>pstate := IN_QUOTED_FIELD\<rparr>)
          else if c = CHR '','' then Inr ((parse_save_field rd)\<lparr>pstate := START_FIELD\<rparr>)
          else map_sum id (\<lambda>r. r\<lparr>pstate := IN_FIELD\<rparr>) (parse_add_char rd c))"

definition process_char :: "reader \<Rightarrow> event \<Rightarrow> error + reader" where
  "process_char rd ev =
     (case pstate rd of
        START_RECORD \<Rightarrow>
          (case ev of
             EOL \<Rightarrow> Inr rd
           | Chr c \<Rightarrow> if is_nl c then Inr (rd\<lparr>pstate := EAT_CRNL\<rparr>) else start_field rd ev)
      | START_FIELD \<Rightarrow> start_field rd ev
      | IN_FIELD \<Rightarrow>
          (case ev of
             EOL \<Rightarrow> Inr (end_of_record rd ev)
           | Chr c \<Rightarrow>
               if is_nl c then Inr (end_of_record rd ev)
               else if c = CHR '','' then Inr ((parse_save_field rd)\<lparr>pstate := START_FIELD\<rparr>)
               else parse_add_char rd c)
      | IN_QUOTED_FIELD \<Rightarrow>
          (case ev of
             EOL \<Rightarrow> Inr rd
           | Chr c \<Rightarrow>
               if c = CHR 0x22 then Inr (rd\<lparr>pstate := QUOTE_IN_QUOTED_FIELD\<rparr>)
               else parse_add_char rd c)
      | QUOTE_IN_QUOTED_FIELD \<Rightarrow>
          (case ev of
             EOL \<Rightarrow> Inr (end_of_record rd ev)
           | Chr c \<Rightarrow>
               if c = CHR 0x22
               then map_sum id (\<lambda>r. r\<lparr>pstate := IN_QUOTED_FIELD\<rparr>) (parse_add_char rd c)
               else if c = CHR '','' then Inr ((parse_save_field rd)\<lparr>pstate := START_FIELD\<rparr>)
               else if is_nl c then Inr (end_of_record rd ev)
               else map_sum id (\<lambda>r. r\<lparr>pstate := IN_FIELD\<rparr>) (parse_add_char rd c))
      | EAT_CRNL \<Rightarrow>
          (case ev of
             EOL \<Rightarrow> Inr (rd\<lparr>pstate := START_RECORD\<rparr>)
           | Chr c \<Rightarrow> if is_nl c then Inr rd else Inl CsvError))"

text \<open>One line of the file: its characters, then the end-of-line event.\<close>

fun process_chars :: "reader \<Rightarrow> string \<Rightarrow> error + reader" where
  "process_chars rd [] = Inr rd"
| "process_chars rd (c # cs) =
     (case process_char rd (Chr c) of
        Inl e \<Rightarrow> Inl e
      | Inr rd' \<Rightarrow> process_chars rd' cs)"

definition process_line :: "reader \<Rightarrow> string \<Rightarrow> error + reader" where
  "process_line rd l =
     (case process_chars rd l of
        Inl e \<Rightarrow> Inl e
      | Inr rd' \<Rightarrow> process_char rd' EOL)"

subsection \<open>The class \<^verbatim>\<open>IPManager\<close>\<close>

text \<open>
  The dictionary \<^verbatim>\<open>_storage\<close> keeps its keys in insertion order: an association list in
  which assigning to a key that is present replaces the value where it stands.
\<close>

fun dict_set :: "'k \<Rightarrow> 'v \<Rightarrow> ('k \<times> 'v) list \<Rightarrow> ('k \<times> 'v) list" where
  "dict_set k v [] = [(k, v)]"
| "dict_set k v (kv # kvs) =
     (if fst kv = k then (k, v) # kvs else kv # dict_set k v kvs)"

text \<open>
  The state of a manager: the text of the file named \<^verbatim>\<open>_storage_fn\<close> and the dictionary
  \<^verbatim>\<open>_storage\<close>.
\<close>

record IPManager =
  storage_file :: string
  storage :: "(string \<times> Address) list"

text \<open>The body of the loop of \<^verbatim>\<open>_load_storage\<close> (lines 62-63) for one row.\<close>

definition store_row :: "string list \<Rightarrow> (string \<times> Address) list \<Rightarrow> error + (string \<times> Address) list" where
  "store_row row st =
     (case row of
        [address, n] \<Rightarrow>
          (case Address_init address n of
             Inl e \<Rightarrow> Inl e
           | Inr a \<Rightarrow> Inr (dict_set address a st))
      | _ \<Rightarrow> Inl StorageLoadError)"

text \<open>
  \<^verbatim>\<open>_load_storage\<close> (lines 57-64): the reader takes lines until a record is complete, the
  loop body stores the row, and the reader starts afresh. When the lines run out inside a
  quoted field, the reader returns the row it has.
\<close>

fun load_lines :: "reader \<Rightarrow> (string \<times> Address) list \<Rightarrow> string list \<Rightarrow> error + (string \<times> Address) list" where
  "load_lines rd st [] =
     (if field_buf rd \<noteq> [] \<or> pstate rd = IN_QUOTED_FIELD
      then store_row (fields_done (parse_save_field rd)) st
      else Inr st)"
| "load_lines rd st (l # ls) =
     (case process_line rd l of
        Inl e \<Rightarrow> Inl e
      | Inr rd' \<Rightarrow>
          if pstate rd' = START_RECORD
          then (case store_row (fields_done rd') st of
                  Inl e \<Rightarrow> Inl e
                | Inr st' \<Rightarrow> load_lines parse_reset st' ls)
          else load_lines rd' st ls)"

definition load_storage :: "string \<Rightarrow> error + (string \<times> Address) list" where
  "load_storage text = load_lines parse_reset [] (file_lines (universal_newlines text))"

text \<open>
  \<^verbatim>\<open>IPManager.__init__\<close> (lines 52-55): a missing file (\<open>None\<close>) is created empty, then the
  file is loaded.
\<close>

definition IPManager_init :: "string option \<Rightarrow> error + IPManager" where
  "IPManager_init file =
     (let text = (case file of None \<Rightarrow> [] | Some t \<Rightarrow> t)
      in case load_storage text of
           Inl e \<Rightarrow> Inl e
         | Inr st \<Rightarrow> Inr \<lparr>storage_file = text, storage = st\<rparr>)"

text \<open>
  \<^verbatim>\<open>IPManager.insert\<close> (lines 66-79). Whether the append succeeds is decided outside the
  program: \<open>Appended\<close>, or \<open>AppendFailed t\<close> where \<open>t\<close> is the text the failed attempt left
  in the file. The outcome tells the four ways the call can end: the duplicate message, the
  printed exception of the append, the insertion, or an exception that reaches the caller.
\<close>

datatype append_result = Appended | AppendFailed string

datatype insert_outcome = Skipped | AppendError | Inserted | Raised error

definition insert :: "append_result \<Rightarrow> IPManager \<Rightarrow> string \<Rightarrow> string \<Rightarrow> insert_outcome \<times> IPManager" where
  "insert io m address n =
     (if address \<in> set (map fst (storage m)) then (Skipped, m)
      else (case io of
              AppendFailed t \<Rightarrow> (AppendError, m\<lparr>storage_file := t\<rparr>)
            | Appended \<Rightarrow>
                (let m' = m\<lparr>storage_file := storage_file m @ writerow [address, n]\<rparr>
                 in case Address_init address n of
                      Inl e \<Rightarrow> (Raised e, m')
                    | Inr a \<Rightarrow> (Inserted, m'\<lparr>storage := dict_set address a (storage m')\<rparr>))))"

text \<open>\<^verbatim>\<open>IPManager.lookup\<close> (lines 81-83).\<close>

definition lookup :: "IPManager \<Rightarrow> string \<Rightarrow> Address option" where
  "lookup m address = map_of (storage m) address"

text \<open>
  \<^verbatim>\<open>IPManager.addrs_by_cidr\<close> (lines 85-89): the comprehension asks \<^verbatim>\<open>addr in cidr\<close> for
  each stored record in turn, and the first exception ends it.
\<close>

fun records_in :: "Address \<Rightarrow> Address list \<Rightarrow> error + Address list" where
  "records_in c [] = Inr []"
| "records_in c (a # as) =
     (case contains c a of
        Inl e \<Rightarrow> Inl e
      | Inr b \<Rightarrow>
          (case records_in c as of
             Inl e \<Rightarrow> Inl e
           | Inr rest \<Rightarrow> Inr (if b then a # rest else rest)))"

definition addrs_by_cidr :: "IPManager \<Rightarrow> string \<Rightarrow> error + Address list" where
  "addrs_by_cidr m cidr_text =
     (case Address_init cidr_text [] of
        Inl e \<Rightarrow> Inl e
      | Inr c \<Rightarrow> records_in c (map snd (storage m)))"

text \<open>\<^verbatim>\<open>IPManager.addrs_by_note\<close> (lines 91-94).\<close>

definition addrs_by_note :: "IPManager \<Rightarrow> string \<Rightarrow> Address list" where
  "addrs_by_note m n = filter (\<lambda>r. str_in n (note_text r)) (map snd (storage m))"

subsection \<open>The script at the end of the file\<close>

text \<open>
  The four insertions of the \<^verbatim>\<open>__main__\<close> block (lines 102-105), on a file that does not
  exist yet and with every append succeeding: the manager they leave behind, written out.
\<close>

definition main_storage :: "(string \<times> Address) list" where
  "main_storage =
     [(''137.43.4.18'',
       \<lparr>addr = ''137.43.4.18'', note_text = ''host'', value_num = 2301297682, prefix = 32,
        cidr = ''137.43.4.18/32''\<rparr>),
      (''137.43.4.19'',
       \<lparr>addr = ''137.43.4.19'', note_text = ''host'', value_num = 2301297683, prefix = 32,
        cidr = ''137.43.4.19/32''\<rparr>),
      (''137.43.4.20/32'',
       \<lparr>addr = ''137.43.4.20/32'', note_text = ''host/cidr'', value_num = 2301297684,
        prefix = 32, cidr = ''137.43.4.20/32''\<rparr>),
      (''137.43/16'',
       \<lparr>addr = ''137.43/16'', note_text = ''net'', value_num = 2301296640, prefix = 16,
        cidr = ''137.43/16''\<rparr>)]"

definition main_manager :: IPManager where
  "main_manager =
     \<lparr>storage_file =
        writerow [''137.43.4.18'', ''host''] @ writerow [''137.43.4.19'', ''host'']
          @ writerow [''137.43.4.20/32'', ''host/cidr''] @ writerow [''137.43/16'', ''net''],
      storage = main_storage\<rparr>"

fun inserts :: "IPManager \<Rightarrow> (string \<times> string) list \<Rightarrow> IPManager" where
  "inserts m [] = m"
| "inserts m (an # ans) = inserts (snd (insert Appended m (fst an) (snd an))) ans"

subsection \<open>What the specification calls a valid value\<close>


section \<open>Evaluation on concrete inputs\<close>

lemma replicate_1: "replicate 1 x = [x]"
  by simp

lemma replicate_2: "replicate 2 x = [x, x]"
  by (simp add: numeral_2_eq_2)

lemma replicate_3: "replicate 3 x = [x, x, x]"
  by (simp add: numeral_3_eq_3)

lemmas Address_eval =
  Address_init_def value_and_prefix_def split_once_def normalize_addr_def
  replicate_1 replicate_2 replicate_3 inet_aton_def c_number_def digit_value_def
  py_int_def py_nat_def strip_def is_space_def unpack_be_def

lemmas csv_eval =
  writerow_def quote_field_def load_storage_def process_line_def process_char_def
  start_field_def end_of_record_def parse_add_char_def parse_save_field_def parse_reset_def
  is_nl_def field_limit_def store_row_def

text \<open>The script's four insertions do leave \<open>main_manager\<close>, and its file loads back.\<close>

lemma init_missing_file: "IPManager_init None = Inr \<lparr>storage_file = [], storage = []\<rparr>"
  by (simp add: IPManager_init_def load_storage_def parse_reset_def)

lemma main_reached:
  "inserts \<lparr>storage_file = [], storage = []\<rparr>
     [(''137.43.4.18'', ''host''), (''137.43.4.19'', ''host''),
      (''137.43.4.20/32'', ''host/cidr''), (''137.43/16'', ''net'')] = main_manager"
  by (simp add: insert_def Address_eval main_manager_def main_storage_def)

lemma main_reloaded: "load_storage (storage_file main_manager) = Inr main_storage"
  by (simp add: main_manager_def main_storage_def csv_eval Address_eval)

section \<open>Containment\<close>


lemma contains_cases:
  "contains self other =
     (if 32 < prefix self then Inl NegativeShiftCount
      else Inr (value_num self div 2 ^ nat (32 - prefix self)
                  = value_num other div 2 ^ nat (32 - prefix self)
                \<and> prefix self \<le> prefix other))"
  by (simp add: contains_def rshift_def)



section \<open>Searching by CIDR\<close>

lemma records_in_filter:
  "prefix c \<le> 32 \<Longrightarrow> records_in c rs = Inr (filter (\<lambda>r. contains c r = Inr True) rs)"
  by (induction rs) (auto simp: contains_cases)

lemma records_in_raises:
  "32 < prefix c \<Longrightarrow> rs \<noteq> [] \<Longrightarrow> records_in c rs = Inl NegativeShiftCount"
  by (cases rs) (auto simp: contains_cases)

text \<open>
  Claim C3. For a CIDR text that parses to a record \<open>c\<close> with a prefix of at most 32,
  \<open>addrs_by_cidr\<close> returns exactly the stored records \<open>r\<close> with \<open>c.contains(r)\<close>, in the
  order of the dictionary. The record \<open>c\<close> is built with an empty note and is not stored:
  the function returns a list and no new manager.
\<close>

theorem addrs_by_cidr_filter:
  assumes "Address_init cidr_text [] = Inr c" and "prefix c \<le> 32"
  shows "addrs_by_cidr m cidr_text
           = Inr (filter (\<lambda>r. contains c r = Inr True) (map snd (storage m)))"
  using assms by (simp add: addrs_by_cidr_def records_in_filter)

theorem addrs_by_cidr_filter_witness:
  "addrs_by_cidr main_manager ''137.43.4/24''
     = Inr [\<lparr>addr = ''137.43.4.18'', note_text = ''host'', value_num = 2301297682,
             prefix = 32, cidr = ''137.43.4.18/32''\<rparr>,
            \<lparr>addr = ''137.43.4.19'', note_text = ''host'', value_num = 2301297683,
             prefix = 32, cidr = ''137.43.4.19/32''\<rparr>,
            \<lparr>addr = ''137.43.4.20/32'', note_text = ''host/cidr'', value_num = 2301297684,
             prefix = 32, cidr = ''137.43.4.20/32''\<rparr>]"
proof -
  let ?c = "\<lparr>addr = ''137.43.4/24'', note_text = [], value_num = 2301297664, prefix = 24,
             cidr = ''137.43.4/24''\<rparr>"
  have parsed: "Address_init ''137.43.4/24'' [] = Inr ?c"
    by (simp add: Address_eval)
  have small: "prefix ?c \<le> 32"
    by simp
  show ?thesis
    using addrs_by_cidr_filter [OF parsed small, of main_manager]
    by (simp add: main_manager_def main_storage_def contains_cases)
qed

section \<open>Insertion\<close>

text \<open>
  Claim C6. Inserting an address that is already a key changes nothing: the call ends with
  the duplicate message, not an exception, and the manager (dictionary and file) is the one
  before the call.
\<close>

theorem insert_duplicate:
  "address \<in> set (map fst (storage m)) \<Longrightarrow> insert io m address n = (Skipped, m)"
  by (simp add: insert_def)

theorem insert_duplicate_witness:
  "insert Appended main_manager ''137.43.4.18'' ''again'' = (Skipped, main_manager)
   \<and> map_option note_text (lookup main_manager ''137.43.4.18'') = Some ''host''"
proof -
  have present: "''137.43.4.18'' \<in> set (map fst (storage main_manager))"
    by (simp add: main_manager_def main_storage_def)
  show ?thesis
    using insert_duplicate [OF present, of Appended "''again''"]
    by (simp add: lookup_def main_manager_def main_storage_def)
qed

text \<open>
  Claim C7. When the append fails, no exception reaches the caller (the call ends with the
  duplicate message or with the printed exception) and the dictionary is the one before the
  call; whatever the call, the dictionary changes only when the append succeeded.
\<close>

theorem insert_append_failed:
  "storage (snd (insert (AppendFailed t) m address n)) = storage m
   \<and> fst (insert (AppendFailed t) m address n) \<in> {Skipped, AppendError}
   \<and> (storage (snd (insert io m address n)) \<noteq> storage m \<longrightarrow> io = Appended)"
  by (cases io) (auto simp: insert_def)

theorem insert_append_failed_witness:
  "insert (AppendFailed []) \<lparr>storage_file = [], storage = []\<rparr> ''10.0.0.1/32'' []
     = (AppendError, \<lparr>storage_file = [], storage = []\<rparr>)
   \<and> storage (snd (insert Appended \<lparr>storage_file = [], storage = []\<rparr> ''10.0.0.1/32'' []))
       \<noteq> storage \<lparr>storage_file = [], storage = []\<rparr>"
  using insert_append_failed [of "[]" "\<lparr>storage_file = [], storage = []\<rparr>" "''10.0.0.1/32''"
          "[]" Appended]
  by (simp add: insert_def Address_eval)

section \<open>Searching by note\<close>

lemma starts_with_iff: "starts_with sub s \<longleftrightarrow> (\<exists>suf. s = sub @ suf)"
  by (induction sub s rule: starts_with.induct) auto

lemma str_in_iff: "str_in sub s \<longleftrightarrow> (\<exists>pre suf. s = pre @ sub @ suf)"
proof (induction s)
  case Nil
  then show ?case by auto
next
  case (Cons c cs)
  show ?case
  proof
    assume "str_in sub (c # cs)"
    then consider "starts_with sub (c # cs)" | "str_in sub cs" by auto
    then show "\<exists>pre suf. c # cs = pre @ sub @ suf"
    proof cases
      case 1
      then obtain suf where "c # cs = sub @ suf" by (auto simp: starts_with_iff)
      then have "c # cs = [] @ sub @ suf" by simp
      then show ?thesis by blast
    next
      case 2
      then obtain pre suf where "cs = pre @ sub @ suf" using Cons.IH by auto
      then have "c # cs = (c # pre) @ sub @ suf" by simp
      then show ?thesis by blast
    qed
  next
    assume "\<exists>pre suf. c # cs = pre @ sub @ suf"
    then obtain pre suf where eq: "c # cs = pre @ sub @ suf" by blast
    show "str_in sub (c # cs)"
    proof (cases pre)
      case Nil
      then have "starts_with sub (c # cs)" using eq by (auto simp: starts_with_iff)
      then show ?thesis by simp
    next
      case (Cons p ps)
      then have "cs = ps @ sub @ suf" using eq by simp
      then have "str_in sub cs" using Cons.IH by blast
      then show ?thesis by simp
    qed
  qed
qed

lemma str_in_empty: "str_in [] s"
  by (induction s) auto

text \<open>
  Claim C9. \<open>addrs_by_note\<close> returns exactly the stored records whose note contains the
  given text as a contiguous run of the same characters, in the order of the dictionary;
  the empty text matches every stored record.
\<close>

theorem addrs_by_note_filter:
  "addrs_by_note m s
     = filter (\<lambda>r. \<exists>pre suf. note_text r = pre @ s @ suf) (map snd (storage m))
   \<and> addrs_by_note m [] = map snd (storage m)"
proof
  show "addrs_by_note m s
     = filter (\<lambda>r. \<exists>pre suf. note_text r = pre @ s @ suf) (map snd (storage m))"
    by (simp add: addrs_by_note_def str_in_iff)
  show "addrs_by_note m [] = map snd (storage m)"
    by (simp add: addrs_by_note_def str_in_empty)
qed

theorem addrs_by_note_filter_witness:
  "map addr (addrs_by_note main_manager ''host'')
     = [''137.43.4.18'', ''137.43.4.19'', ''137.43.4.20/32'']
   \<and> map addr (addrs_by_note main_manager ''Host'') = []
   \<and> map addr (filter (\<lambda>r. \<exists>pre suf. note_text r = pre @ ''net'' @ suf)
                  (map snd (storage main_manager))) = [''137.43/16'']"
proof -
  have "map addr (addrs_by_note main_manager ''net'') = [''137.43/16'']"
    by (simp add: addrs_by_note_def main_manager_def main_storage_def)
  then show ?thesis
    using addrs_by_note_filter [of main_manager "''net''"]
    by (simp add: addrs_by_note_def main_manager_def main_storage_def)
qed

section \<open>Prefixes above 32\<close>

lemma split_at_first:
  "d \<notin> set v \<Longrightarrow>
     takeWhile (\<lambda>c. c \<noteq> d) (v @ d # p) = v \<and> dropWhile (\<lambda>c. c \<noteq> d) (v @ d # p) = d # p"
  by (induction v) auto

lemma value_and_prefix_slash:
  "CHR ''/'' \<notin> set v \<Longrightarrow> value_and_prefix (v @ CHR ''/'' # p) = (v, p)"
  by (simp add: value_and_prefix_def split_once_def split_at_first)

text \<open>
  Claim C10. Construction accepts every prefix token that \<^verbatim>\<open>int\<close> reads, whatever its
  value; a record whose prefix exceeds 32 raises on every containment test (negative shift
  count); so \<open>addrs_by_cidr\<close> with such a CIDR text, which parses, raises as soon as the
  scan meets a stored record.
\<close>

theorem prefix_above_32:
  "(CHR ''/'' \<notin> set v \<and> inet_aton (normalize_addr v) = Some bs \<and> py_int p = Some k
      \<longrightarrow> Address_init (v @ CHR ''/'' # p) n
            = Inr \<lparr>addr = v @ CHR ''/'' # p, note_text = n, value_num = unpack_be bs,
                   prefix = k, cidr = v @ CHR ''/'' # p\<rparr>)
   \<and> (32 < prefix self \<longrightarrow> contains self other = Inl NegativeShiftCount)
   \<and> (Address_init cidr_text [] = Inr c \<and> 32 < prefix c \<and> storage m \<noteq> []
      \<longrightarrow> addrs_by_cidr m cidr_text = Inl NegativeShiftCount)"
  by (auto simp: Address_init_def value_and_prefix_slash contains_cases addrs_by_cidr_def
        records_in_raises)

theorem prefix_above_32_witness:
  "Address_init ''1.2.3.4/40'' []
     = Inr \<lparr>addr = ''1.2.3.4/40'', note_text = [], value_num = 16909060, prefix = 40,
            cidr = ''1.2.3.4/40''\<rparr>
   \<and> contains \<lparr>addr = ''1.2.3.4/40'', note_text = [], value_num = 16909060, prefix = 40,
               cidr = ''1.2.3.4/40''\<rparr>
              \<lparr>addr = ''10.0.0.1/32'', note_text = [], value_num = 167772161, prefix = 32,
               cidr = ''10.0.0.1/32''\<rparr>
     = Inl NegativeShiftCount
   \<and> addrs_by_cidr main_manager ''1.2.3.4/40'' = Inl NegativeShiftCount"
  using prefix_above_32 [where v = "''1.2.3.4''" and bs = "[1, 2, 3, 4]" and p = "''40''"
          and k = 40 and n = "[]"
          and self = "\<lparr>addr = ''1.2.3.4/40'', note_text = [], value_num = 16909060,
                       prefix = 40, cidr = ''1.2.3.4/40''\<rparr>"
          and other = "\<lparr>addr = ''10.0.0.1/32'', note_text = [], value_num = 167772161,
                        prefix = 32, cidr = ''10.0.0.1/32''\<rparr>"
          and cidr_text = "''1.2.3.4/40''"
          and c = "\<lparr>addr = ''1.2.3.4/40'', note_text = [], value_num = 16909060,
                    prefix = 40, cidr = ''1.2.3.4/40''\<rparr>"
          and m = main_manager]
  by (simp add: normalize_addr_def inet_aton_def c_number_def digit_value_def py_int_def
        py_nat_def strip_def is_space_def unpack_be_def main_manager_def main_storage_def)

section \<open>Splitting and joining\<close>

lemma split_on_nonempty: "split_on d s \<noteq> []"
  by (induction s) (auto split: list.splits)





lemma join_split: "join [d] (split_on d s) = s"
proof (induction s)
  case Nil
  then show ?case by simp
next
  case (Cons c cs)
  obtain u us where us: "split_on d cs = u # us"
    using split_on_nonempty [of d cs] by (cases "split_on d cs") auto
  show ?case
  proof (cases "c = d")
    case True
    then show ?thesis using Cons us by simp
  next
    case False
    then show ?thesis using Cons us by (cases us) auto
  qed
qed



lemma normalize_addr_id:
  "4 \<le> length (split_on CHR ''.'' v) \<Longrightarrow> normalize_addr v = v"
  by (simp add: normalize_addr_def Let_def join_split)




lemma mod_256_byte: "(x::nat) mod 256 \<le> 255"
  using mod_less_divisor [of 256 x] by simp

lemma div_byte_32: "(x::nat) \<le> 4294967295 \<Longrightarrow> x div 16777216 \<le> 255"
  using div_le_mono [of x 4294967295 16777216] by simp

lemma div_byte_24: "(x::nat) \<le> 16777215 \<Longrightarrow> x div 65536 \<le> 255"
  using div_le_mono [of x 16777215 65536] by simp

lemma div_byte_16: "(x::nat) \<le> 65535 \<Longrightarrow> x div 256 \<le> 255"
  using div_le_mono [of x 65535 256] by simp

lemma inet_aton_bytes:
  "inet_aton s = Some bs \<Longrightarrow>
     \<exists>a b c d. bs = [a, b, c, d] \<and> a \<le> 255 \<and> b \<le> 255 \<and> c \<le> 255 \<and> d \<le> 255"
  by (auto simp: inet_aton_def mod_256_byte div_byte_32 div_byte_24 div_byte_16
        split: option.splits list.splits if_splits)

lemma inet_aton_bound: "inet_aton s = Some bs \<Longrightarrow> unpack_be bs < 4294967296"
  by (auto simp: unpack_be_def dest!: inet_aton_bytes)

lemma Address_init_value_bound: "Address_init a n = Inr r \<Longrightarrow> value_num r < 4294967296"
  by (auto simp: Address_init_def inet_aton_bound split: prod.splits option.splits)


section \<open>Construction of an address\<close>

lemma value_part_no_slash: "CHR ''/'' \<notin> set (fst (value_and_prefix a))"
  by (auto simp: value_and_prefix_def split_once_def dest: set_takeWhileD)

lemma Address_init_Inr:
  "Address_init a n = Inr r \<Longrightarrow>
     cidr r = fst (value_and_prefix a) @ ''/'' @ snd (value_and_prefix a)"
  by (auto simp: Address_init_def split: prod.splits option.splits)

text \<open>
  Claim C1, as the code has it. The canonical form is the value part as it was written,
  without padding, then \<open>/\<close> and the prefix token as it was written (\<open>32\<close> when there
  was none). When the value part is written with four octets it is its own padded form,
  and the canonical form has exactly four octets before the \<open>/\<close>.
\<close>

theorem cidr_is_value_as_written:
  assumes "Address_init a n = Inr r"
  shows "cidr r = fst (value_and_prefix a) @ ''/'' @ snd (value_and_prefix a)
         \<and> (length (split_on CHR ''.'' (fst (value_and_prefix a))) = 4 \<longrightarrow>
              cidr r = normalize_addr (fst (value_and_prefix a)) @ ''/''
                         @ snd (value_and_prefix a)
              \<and> length (split_on CHR ''.'' (takeWhile (\<lambda>c. c \<noteq> CHR ''/'') (cidr r))) = 4)"
proof -
  let ?v = "fst (value_and_prefix a)" and ?p = "snd (value_and_prefix a)"
  have c: "cidr r = ?v @ CHR ''/'' # ?p"
    using Address_init_Inr [OF assms] by simp
  have "takeWhile (\<lambda>c. c \<noteq> CHR ''/'') (cidr r) = ?v"
    using split_at_first [OF value_part_no_slash, of a ?p] c by simp
  then show ?thesis
    using c by (simp add: normalize_addr_id)
qed

theorem cidr_is_value_as_written_witness:
  "Address_init ''137.43.4.20/32'' ''host/cidr''
     = Inr \<lparr>addr = ''137.43.4.20/32'', note_text = ''host/cidr'', value_num = 2301297684,
            prefix = 32, cidr = ''137.43.4.20/32''\<rparr>
   \<and> length (split_on CHR ''.'' (takeWhile (\<lambda>c. c \<noteq> CHR ''/'') ''137.43.4.20/32'')) = 4"
proof -
  let ?r = "\<lparr>addr = ''137.43.4.20/32'', note_text = ''host/cidr'', value_num = 2301297684,
            prefix = 32, cidr = ''137.43.4.20/32''\<rparr>"
  have made: "Address_init ''137.43.4.20/32'' ''host/cidr'' = Inr ?r"
    by (simp add: Address_eval)
  show ?thesis
    using cidr_is_value_as_written [OF made] made
    by (simp add: value_and_prefix_def split_once_def)
qed

theorem cidr_not_padded_counterexample:
  "map_sum id cidr (Address_init ''137.43/16'' ''net'') = Inr ''137.43/16''
   \<and> map_sum id cidr (Address_init ''137.43/16'' ''net'')
       \<noteq> Inr (normalize_addr ''137.43'' @ ''/'' @ ''16'')
   \<and> length (split_on CHR ''.'' (takeWhile (\<lambda>c. c \<noteq> CHR ''/'') ''137.43/16'')) \<noteq> 4"
  by (simp add: Address_eval)



section \<open>Prefix zero\<close>

text \<open>
  Claim C4, as the code has it. A constructed record with prefix 0 contains every constructed
  record whose prefix is not negative: both values, being below \<open>2 ^ 32\<close>, shift to 0.
\<close>

theorem prefix_zero_contains:
  assumes "Address_init a n = Inr self" and "Address_init b k = Inr other"
    and "prefix self = 0" and "0 \<le> prefix other"
  shows "contains self other = Inr True"
  using assms Address_init_value_bound [OF assms(1)] Address_init_value_bound [OF assms(2)]
  by (simp add: contains_cases)

theorem prefix_zero_contains_witness:
  "contains \<lparr>addr = ''0.0.0.0/0'', note_text = [], value_num = 0, prefix = 0,
             cidr = ''0.0.0.0/0''\<rparr>
            \<lparr>addr = ''200.1.2.3/32'', note_text = [], value_num = 3355509251, prefix = 32,
             cidr = ''200.1.2.3/32''\<rparr> = Inr True"
proof -
  have 1: "Address_init ''0.0.0.0/0'' [] = Inr \<lparr>addr = ''0.0.0.0/0'', note_text = [],
             value_num = 0, prefix = 0, cidr = ''0.0.0.0/0''\<rparr>"
    by (simp add: Address_eval)
  have 2: "Address_init ''200.1.2.3/32'' [] = Inr \<lparr>addr = ''200.1.2.3/32'', note_text = [],
             value_num = 3355509251, prefix = 32, cidr = ''200.1.2.3/32''\<rparr>"
    by (simp add: Address_eval)
  show ?thesis
    using prefix_zero_contains [OF 1 2] by simp
qed

theorem prefix_zero_counterexample:
  "Address_init ''0.0.0.0/0'' []
     = Inr \<lparr>addr = ''0.0.0.0/0'', note_text = [], value_num = 0, prefix = 0,
            cidr = ''0.0.0.0/0''\<rparr>
   \<and> Address_init ''200.1.2.3/-1'' []
     = Inr \<lparr>addr = ''200.1.2.3/-1'', note_text = [], value_num = 3355509251, prefix = - 1,
            cidr = ''200.1.2.3/-1''\<rparr>
   \<and> contains \<lparr>addr = ''0.0.0.0/0'', note_text = [], value_num = 0, prefix = 0,
               cidr = ''0.0.0.0/0''\<rparr>
              \<lparr>addr = ''200.1.2.3/-1'', note_text = [], value_num = 3355509251, prefix = - 1,
               cidr = ''200.1.2.3/-1''\<rparr> = Inr False"
  by (simp add: Address_eval contains_cases)

section \<open>Reloading the file\<close>

text \<open>
  Claim C5 at a note that holds a carriage return. The insertion succeeds and writes the
  note between quotes; a new manager on the same file reads the carriage return as a line
  feed, and its record for the address has another note.
\<close>

theorem carriage_return_not_preserved:
  "insert Appended \<lparr>storage_file = [], storage = []\<rparr> ''137.43.4.18''
       [CHR ''a'', CHR 0x0D, CHR ''b'']
     = (Inserted,
        \<lparr>storage_file = writerow [''137.43.4.18'', [CHR ''a'', CHR 0x0D, CHR ''b'']],
         storage = [(''137.43.4.18'',
           \<lparr>addr = ''137.43.4.18'', note_text = [CHR ''a'', CHR 0x0D, CHR ''b''],
            value_num = 2301297682, prefix = 32, cidr = ''137.43.4.18/32''\<rparr>)]\<rparr>)
   \<and> map_sum id (\<lambda>m. map_option note_text (lookup m ''137.43.4.18''))
        (IPManager_init (Some (writerow [''137.43.4.18'', [CHR ''a'', CHR 0x0D, CHR ''b'']])))
     = Inr (Some [CHR ''a'', CHR 0x0A, CHR ''b''])"
  by (simp add: insert_def IPManager_init_def lookup_def csv_eval Address_eval)

text \<open>A note with double quotes and a comma is written between quotes and read back.\<close>

lemma quoted_note_reloaded:
  "load_storage (writerow [''1.2.3.4'', ''say \"hi\", ok''])
     = Inr [(''1.2.3.4'',
             \<lparr>addr = ''1.2.3.4'', note_text = ''say \"hi\", ok'', value_num = 16909060,
              prefix = 32, cidr = ''1.2.3.4/32''\<rparr>)]"
  by (simp add: csv_eval Address_eval)

end
